theory Spec2Isabelle
  imports Main
begin

text \<open>
  A model of the object mapper of \<open>core/mapper.ts\<close>: registration, the compiled
  mapping function with its three steps (default copy, explicit field functions,
  decorator-driven fields), \<open>map\<close> and \<open>mapAsync\<close> with hooks and the instance
  cache, reverse maps, and the naming converter of \<open>utils/naming-convention.util.ts\<close>.
  The file \<open>core/mapper.ts\<close> holds two definitions of the class \<open>Mapper\<close>; the
  model follows the second one (lines 382 to 1011), which has the compiled functions and
  the cache.

  Every function that may throw returns a sum, \<open>Inl\<close> for the error thrown. What the
  module reads from outside itself, the constructors of the classes, the setters of their
  properties and the metadata that \<open>Reflect.getMetadata\<close> returns, is a parameter of
  the model; the decorators of \<open>decorators/automap.decorator.ts\<close> and the metadata they
  write are modelled too, so that the parameter can be the one a decorated class gives.
\<close>

section \<open>JavaScript values\<close>

text \<open>
  A class is a constructor function: it has a \<open>name\<close> and an identity. Two classes
  declared in different modules may share a name; they are the same class only when
  their identities agree, which is what \<open>===\<close> on constructors tests.
\<close>

datatype cls = Cls (cname: string) (cid: nat)

text \<open>
  Values are finite trees. Every object and every array carries the identity under which
  a \<open>WeakMap\<close> would file it, so two objects with equal class and equal fields are
  still different objects when their identities differ. Function-valued properties and
  the members inherited from \<open>Object.prototype\<close> are not represented; \<open>Date\<close>
  values are not represented either.
\<close>

datatype jsval =
    Undefined
  | Null
  | Bool bool
  | Num int
  | Str string
  | Arr nat "jsval list"
  | Obj nat cls "(string \<times> jsval) list"

type_synonym fields = "(string \<times> jsval) list"

text \<open>
  \<open>Raised m\<close> is an error thrown by caller-supplied code, told apart by its message.
  \<open>MappingError s d m cause\<close> is what \<open>createMappingError\<close> builds: the two type
  names and the message are the parts of its formatted message text, the cause is its
  \<open>originalError\<close> property.
\<close>

datatype error =
    TypeError
  | Raised string
  | MappingError string string string "error option"

definition ObjectClass :: cls where
  "ObjectClass = Cls ''Object'' 0"

definition ArrayClass :: cls where
  "ArrayClass = Cls ''Array'' 0"

definition NumberClass :: cls where
  "NumberClass = Cls ''Number'' 0"

definition StringClass :: cls where
  "StringClass = Cls ''String'' 0"

definition BooleanClass :: cls where
  "BooleanClass = Cls ''Boolean'' 0"

text \<open>\<open>v.constructor\<close>: reading a property of \<open>null\<close> or \<open>undefined\<close> throws.\<close>

fun classOf :: "jsval \<Rightarrow> error + cls" where
  "classOf Undefined = Inl TypeError"
| "classOf Null = Inl TypeError"
| "classOf (Bool b) = Inr BooleanClass"
| "classOf (Num n) = Inr NumberClass"
| "classOf (Str s) = Inr StringClass"
| "classOf (Arr i xs) = Inr ArrayClass"
| "classOf (Obj i c fs) = Inr c"

text \<open>The key a \<open>WeakMap\<close> files a value under; primitives have none.\<close>

fun weakKey :: "jsval \<Rightarrow> nat option" where
  "weakKey (Arr i xs) = Some i"
| "weakKey (Obj i c fs) = Some i"
| "weakKey v = None"

fun truthy :: "jsval \<Rightarrow> bool" where
  "truthy Undefined = False"
| "truthy Null = False"
| "truthy (Bool b) = b"
| "truthy (Num n) = (n \<noteq> 0)"
| "truthy (Str s) = (s \<noteq> [])"
| "truthy (Arr i xs) = True"
| "truthy (Obj i c fs) = True"

subsection \<open>Property access\<close>

fun digitChar :: "nat \<Rightarrow> char" where
  "digitChar n = char_of (48 + n)"

fun showNat :: "nat \<Rightarrow> string" where
  "showNat n = (if n < 10 then [digitChar n] else showNat (n div 10) @ [digitChar (n mod 10)])"

declare showNat.simps [simp del]

definition indexKeys :: "nat \<Rightarrow> string list" where
  "indexKeys n = map showNat [0..<n]"

definition indexOfKey :: "nat \<Rightarrow> string \<Rightarrow> nat option" where
  "indexOfKey n k = find (\<lambda>i. showNat i = k) [0..<n]"

text \<open>\<open>for (const k in v)\<close>: the enumerable keys, in enumeration order.\<close>

fun enumKeys :: "jsval \<Rightarrow> string list" where
  "enumKeys (Obj i c fs) = map fst fs"
| "enumKeys (Arr i xs) = indexKeys (length xs)"
| "enumKeys (Str s) = indexKeys (length s)"
| "enumKeys v = []"

text \<open>\<open>v[k]\<close> on a value that is neither \<open>null\<close> nor \<open>undefined\<close>.\<close>

fun getProp :: "jsval \<Rightarrow> string \<Rightarrow> jsval" where
  "getProp (Obj i c fs) k = (case map_of fs k of Some v \<Rightarrow> v | None \<Rightarrow> Undefined)"
| "getProp (Arr i xs) k =
     (if k = ''length'' then Num (int (length xs))
      else case indexOfKey (length xs) k of Some j \<Rightarrow> xs ! j | None \<Rightarrow> Undefined)"
| "getProp (Str s) k =
     (if k = ''length'' then Num (int (length s))
      else case indexOfKey (length s) k of Some j \<Rightarrow> Str [s ! j] | None \<Rightarrow> Undefined)"
| "getProp v k = Undefined"

text \<open>\<open>v[k]\<close>: throws on \<open>null\<close> and \<open>undefined\<close>.\<close>

fun getPropStrict :: "jsval \<Rightarrow> string \<Rightarrow> error + jsval" where
  "getPropStrict Undefined k = Inl TypeError"
| "getPropStrict Null k = Inl TypeError"
| "getPropStrict v k = Inr (getProp v k)"

text \<open>\<open>v?.[k]\<close>: \<open>undefined\<close> on \<open>null\<close> and \<open>undefined\<close>.\<close>

fun getPropOpt :: "jsval \<Rightarrow> string \<Rightarrow> jsval" where
  "getPropOpt Undefined k = Undefined"
| "getPropOpt Null k = Undefined"
| "getPropOpt v k = getProp v k"

text \<open>\<open>k in v\<close>: throws unless \<open>v\<close> is an object or an array.\<close>

fun hasIn :: "string \<Rightarrow> jsval \<Rightarrow> error + bool" where
  "hasIn k (Obj i c fs) = Inr (List.member (map fst fs) k)"
| "hasIn k (Arr i xs) = Inr (if k = ''length'' then True else indexOfKey (length xs) k \<noteq> None)"
| "hasIn k v = Inl TypeError"

text \<open>
  \<open>o[k] = v\<close> on the field list of an object: an existing key keeps its place, a new
  key goes to the end.
\<close>

fun setProp :: "'k \<Rightarrow> 'v \<Rightarrow> ('k \<times> 'v) list \<Rightarrow> ('k \<times> 'v) list" where
  "setProp k v [] = [(k, v)]"
| "setProp k v (p # ps) = (if fst p = k then (k, v) # ps else p # setProp k v ps)"

definition lookupField :: "fields \<Rightarrow> string \<Rightarrow> jsval" where
  "lookupField fs k = (case map_of fs k of Some v \<Rightarrow> v | None \<Rightarrow> Undefined)"

section \<open>The naming converter\<close>

text \<open>
  Strings are lists of characters, and the character classes and the change of case
  are those of ASCII: \<open>[A-Z]\<close>, the ASCII white space of \<open>\s\<close>, and
  \<open>toLowerCase\<close> and \<open>toUpperCase\<close> acting on the ASCII letters only.
\<close>

datatype style = CamelCase | SnakeCase | PascalCase | KebabCase

definition isUpper :: "char \<Rightarrow> bool" where
  "isUpper c = ((65::nat) \<le> of_char c \<and> of_char c \<le> (90::nat))"

definition isLower :: "char \<Rightarrow> bool" where
  "isLower c = ((97::nat) \<le> of_char c \<and> of_char c \<le> (122::nat))"

text \<open>The ASCII members of the regular-expression class \<open>\s\<close>.\<close>

definition isSpace :: "char \<Rightarrow> bool" where
  "isSpace c = List.member [9, 10, 11, 12, 13, 32::nat] (of_char c)"

definition toLowerChar :: "char \<Rightarrow> char" where
  "toLowerChar c = (if isUpper c then char_of (of_char c + (32::nat)) else c)"

definition toUpperChar :: "char \<Rightarrow> char" where
  "toUpperChar c = (if isLower c then char_of (of_char c - (32::nat)) else c)"

definition toLowerCase :: "string \<Rightarrow> string" where
  "toLowerCase s = map toLowerChar s"

text \<open>\<open>s.replace(/([A-Z])/g, ' $1')\<close>\<close>

definition spaceBeforeUpper :: "string \<Rightarrow> string" where
  "spaceBeforeUpper s = concat (map (\<lambda>c. if isUpper c then [CHR '' '', c] else [c]) s)"

text \<open>\<open>s.trim()\<close>\<close>

definition trim :: "string \<Rightarrow> string" where
  "trim s = rev (dropWhile isSpace (rev (dropWhile isSpace s)))"

text \<open>
  \<open>s.split(/[\s_]+/)\<close>: the pieces between maximal runs of separator characters. The
  flag tells that the previous character was a separator, in which case the current
  piece is still empty. A separator at either end leaves an empty piece there; the empty
  string gives one empty piece.
\<close>

fun splitRuns :: "(char \<Rightarrow> bool) \<Rightarrow> bool \<Rightarrow> string \<Rightarrow> string \<Rightarrow> string list" where
  "splitRuns p inSep acc [] = [rev acc]"
| "splitRuns p inSep acc (c # cs) =
     (if p c then (if inSep then splitRuns p True acc cs else rev acc # splitRuns p True [] cs)
      else splitRuns p False (c # acc) cs)"

definition splitSpaceUnderscore :: "string \<Rightarrow> string list" where
  "splitSpaceUnderscore s = splitRuns (\<lambda>c. isSpace c \<or> c = CHR ''_'') False [] s"

text \<open>\<open>s.split(sep)\<close> for a one-character separator: every separator ends a piece.\<close>

fun splitChar :: "char \<Rightarrow> string \<Rightarrow> string \<Rightarrow> string list" where
  "splitChar sep acc [] = [rev acc]"
| "splitChar sep acc (c # cs) =
     (if c = sep then rev acc # splitChar sep [] cs else splitChar sep (c # acc) cs)"

text \<open>\<open>xs.join(sep)\<close>\<close>

fun joinWith :: "string \<Rightarrow> string list \<Rightarrow> string" where
  "joinWith sep [] = []"
| "joinWith sep [w] = w"
| "joinWith sep (w # ws) = w @ sep @ joinWith sep ws"

text \<open>
  \<open>w[0].toUpperCase() + w.slice(1)\<close>: on the empty string \<open>w[0]\<close> is \<open>undefined\<close>
  and the method call throws.
\<close>

fun capitalize :: "string \<Rightarrow> error + string" where
  "capitalize [] = Inl TypeError"
| "capitalize (c # cs) = Inr (toUpperChar c # cs)"

text \<open>\<open>xs.map(f)\<close> for a callback that may throw: the first throw ends the loop.\<close>

fun mapE :: "('a \<Rightarrow> error + 'b) \<Rightarrow> 'a list \<Rightarrow> error + 'b list" where
  "mapE f [] = Inr []"
| "mapE f (x # xs) =
     (case f x of
        Inl e \<Rightarrow> Inl e
      | Inr y \<Rightarrow> (case mapE f xs of Inl e \<Rightarrow> Inl e | Inr ys \<Rightarrow> Inr (y # ys)))"

definition splitWords :: "style \<Rightarrow> string \<Rightarrow> string list" where
  "splitWords from propertyName =
     (case from of
        CamelCase \<Rightarrow> splitSpaceUnderscore (spaceBeforeUpper propertyName)
      | PascalCase \<Rightarrow> splitSpaceUnderscore (trim (spaceBeforeUpper propertyName))
      | SnakeCase \<Rightarrow> splitChar CHR ''_'' [] propertyName
      | KebabCase \<Rightarrow> splitChar CHR ''-'' [] propertyName)"

definition joinWords :: "style \<Rightarrow> string list \<Rightarrow> error + string" where
  "joinWords to ws =
     (case to of
        CamelCase \<Rightarrow>
          (case ws of
             [] \<Rightarrow> Inr []
           | w # rest \<Rightarrow>
               (case mapE capitalize rest of
                  Inl e \<Rightarrow> Inl e
                | Inr cs \<Rightarrow> Inr (concat (w # cs))))
      | PascalCase \<Rightarrow>
          (case mapE capitalize ws of Inl e \<Rightarrow> Inl e | Inr cs \<Rightarrow> Inr (concat cs))
      | SnakeCase \<Rightarrow> Inr (joinWith ''_'' ws)
      | KebabCase \<Rightarrow> Inr (joinWith ''-'' ws))"

definition convertNamingConvention :: "string \<Rightarrow> style \<Rightarrow> style \<Rightarrow> error + string" where
  "convertNamingConvention propertyName from to =
     joinWords to (map toLowerCase (splitWords from propertyName))"

section \<open>The mapper's data\<close>

text \<open>
  A field function computes one destination field from the whole source; it either
  returns a value or throws. A function made by the mapper's \<open>mapFrom\<close> helper also
  carries the \<open>__sourcePath\<close> property. Field functions, hooks and transformers are
  taken to be functions of their arguments alone.
\<close>

datatype fieldFn = FieldFn (run: "jsval \<Rightarrow> error + jsval") (sourcePathTag: "string option")

type_synonym mappingConfig = "(string \<times> fieldFn) list"

text \<open>\<open>CacheConfig\<close>: only \<open>enabled\<close> is ever read.\<close>

record cacheConfig =
  enabled :: "bool option"

text \<open>
  \<open>MappingEntryOptions\<close>, with \<open>convertNaming\<close>, which the compiled function reads
  off the options as well. An optional property that is absent is \<open>None\<close>. The
  option \<open>deepClone\<close> is \<open>deepCloneFlag\<close> here and \<open>include\<close> is
  \<open>includeList\<close>. Both hooks are called with one argument, as \<open>map\<close> and
  \<open>mapAsync\<close> call them.
\<close>

record options =
  skipNulls :: "bool option"
  skipUndefined :: "bool option"
  deepCloneFlag :: "bool option"
  strict :: "bool option"
  beforeMap :: "(jsval \<Rightarrow> error + jsval) option"
  afterMap :: "(jsval \<Rightarrow> error + jsval) option"
  cache :: "cacheConfig option"
  ignore :: "string list option"
  includeList :: "string list option"
  deepCloneBeforeMap :: "bool option"
  convertNaming :: "(style \<times> style) option"

definition noOptions :: options where
  "noOptions = \<lparr> skipNulls = None, skipUndefined = None, deepCloneFlag = None, strict = None,
     beforeMap = None, afterMap = None, cache = None, ignore = None, includeList = None,
     deepCloneBeforeMap = None, convertNaming = None \<rparr>"

text \<open>\<open>TransformOptions\<close>, the type of the third argument of \<open>map\<close> and \<open>mapAsync\<close>.\<close>

record transformOptions =
  t_ignore :: "string list option"
  t_include :: "string list option"
  t_convertNaming :: "(style \<times> style) option"

record entry =
  source :: cls
  destination :: cls
  config :: "mappingConfig option"
  options :: options

text \<open>
  The state of a \<open>Mapper\<close>. A compiled function is represented by the entry its closure
  captured. The instance cache, a \<open>WeakMap\<close> from source object to a \<open>Map\<close> from
  destination class to result, is one table keyed by the pair of the object's identity
  and the class. Two components belong to the run-time rather than to the class:
  \<open>nextOid\<close> is the identity the next allocated object gets, and \<open>fnCalls\<close> counts the
  field-function invocations made so far.
\<close>

record mapper =
  registry :: "entry list"
  globalOptions :: options
  reverseRegistry :: "(string \<times> entry) list"
  compiledMapFns :: "(string \<times> entry) list"
  compiledAsyncMapFns :: "(string \<times> entry) list"
  instanceCache :: "((nat \<times> cls) \<times> jsval) list"
  cacheConfig :: "cacheConfig option"
  nextOid :: nat
  fnCalls :: nat

text \<open>An optional flag counts when it is set and true.\<close>

definition flag :: "bool option \<Rightarrow> bool" where
  "flag b = (b = Some True)"

text \<open>
  What the mapper asks of the classes it is given: the fields of a freshly constructed
  instance; what \<open>Reflect.getMetadata\<close> returns for the four metadata keys it reads,
  namely the keys of the auto-map record filed for the class itself and, per field of
  the prototype, the source path, the nested-type factory's class and the transformer;
  and what the assignment \<open>dest[key] = value\<close> on an instance throws, if it throws. A
  property with accessors is represented by the value it holds, under its own name, and
  its setter by what it throws.
\<close>

record env =
  construct :: "cls \<Rightarrow> fields"
  autoMapMeta :: "cls \<Rightarrow> string list"
  mapPropertyMeta :: "cls \<Rightarrow> string \<Rightarrow> string option"
  mapNestedMeta :: "cls \<Rightarrow> string \<Rightarrow> cls option"
  transformMeta :: "cls \<Rightarrow> string \<Rightarrow> (jsval \<Rightarrow> jsval \<Rightarrow> error + jsval) option"
  assignCheck :: "cls \<Rightarrow> string \<Rightarrow> jsval \<Rightarrow> error option"

subsection \<open>Decorators and their metadata\<close>

text \<open>
  The metadata keys: the four symbols of \<open>decorators/automap.decorator.ts\<close>, which
  are the ones the mapper reads; the symbol \<open>Symbol.for('AUTO_MAP_METADATA')\<close> of
  \<open>nestjs/decorators.ts\<close>, which is another symbol than \<open>AUTO_MAP_METADATA_KEY\<close>;
  and the keys of the remaining decorators of the repository.
\<close>

datatype metaKey =
    AutoMapKey | MapPropertyKey | MapNestedKey | TransformKey
  | NestAutoMapKey
  | UseMapperKey | MapperSourceKey | MapperDestinationKey | MappableKey | MapProfilesKey

text \<open>
  The object metadata is defined on: a class, which is its constructor, or the prototype
  of a class, which is the \<open>target\<close> a property decorator receives.
\<close>

datatype target = Constructor cls | Prototype cls

text \<open>
  The metadata values the decorators write: the record \<open>{propertyKey, name, ignore}\<close>,
  a source path, a nested-type factory (by the class it returns), a transformer, the
  record from property keys to classes that the \<open>AutoMap\<close> of
  \<open>nestjs/decorators.ts\<close> keeps and its record with the one key \<open>__class__\<close>,
  and any other value, which the mapper never reads, by its enumerable keys.
\<close>

datatype metaValue =
    AutoMapInfo string string bool
  | SourcePath string
  | NestedType cls
  | Transformer "jsval \<Rightarrow> jsval \<Rightarrow> error + jsval"
  | PropRecord "(string \<times> cls option) list"
  | ClassMark cls
  | Other "string list"

text \<open>
  What the decorators leave behind: the metadata, filed by key, target and property key
  (\<open>None\<close> when the metadata is of the target itself), and the setters defined on
  prototypes, each by what it throws for a value.
\<close>

record classes =
  metadata :: "((metaKey \<times> target \<times> string option) \<times> metaValue) list"
  setters :: "((cls \<times> string) \<times> (jsval \<Rightarrow> error option)) list"

definition noClasses :: classes where
  "noClasses = \<lparr> metadata = [], setters = [] \<rparr>"

definition defineMetadata ::
  "metaKey \<Rightarrow> metaValue \<Rightarrow> target \<Rightarrow> string option \<Rightarrow> classes \<Rightarrow> classes" where
  "defineMetadata key v t propertyKey st =
     st\<lparr> metadata := setProp (key, t, propertyKey) v (metadata st) \<rparr>"

text \<open>
  \<open>Reflect.getMetadata\<close>. Classes that extend one another are not represented, so the
  walk up the prototype chain of the target finds nothing more; the chain of a
  constructor does not pass through its own prototype object.
\<close>

definition getMetadata ::
  "metaKey \<Rightarrow> target \<Rightarrow> string option \<Rightarrow> classes \<Rightarrow> metaValue option" where
  "getMetadata key t propertyKey st = map_of (metadata st) (key, t, propertyKey)"

record autoMapOptions =
  a_name :: "string option"
  a_ignore :: "bool option"

text \<open>
  The property decorators of \<open>decorators/automap.decorator.ts\<close>, applied to the
  property \<open>propertyKey\<close> of the class \<open>c\<close>; their \<open>target\<close> is the prototype of \<open>c\<close>.
\<close>

definition AutoMap :: "autoMapOptions option \<Rightarrow> cls \<Rightarrow> string \<Rightarrow> classes \<Rightarrow> classes" where
  "AutoMap opts c propertyKey st =
     defineMetadata AutoMapKey
       (AutoMapInfo propertyKey
          (case opts of
             None \<Rightarrow> propertyKey
           | Some ov \<Rightarrow> (case a_name ov of Some (x # xs) \<Rightarrow> x # xs | _ \<Rightarrow> propertyKey))
          (case opts of None \<Rightarrow> False | Some ov \<Rightarrow> flag (a_ignore ov)))
       (Prototype c) (Some propertyKey) st"

definition MapProperty :: "string \<Rightarrow> cls \<Rightarrow> string \<Rightarrow> classes \<Rightarrow> classes" where
  "MapProperty sourcePath c propertyKey st =
     defineMetadata MapPropertyKey (SourcePath sourcePath) (Prototype c) (Some propertyKey) st"

definition MapNested :: "cls \<Rightarrow> cls \<Rightarrow> string \<Rightarrow> classes \<Rightarrow> classes" where
  "MapNested nestedType c propertyKey st =
     defineMetadata MapNestedKey (NestedType nestedType) (Prototype c) (Some propertyKey) st"

definition Transform ::
  "(jsval \<Rightarrow> jsval \<Rightarrow> error + jsval) \<Rightarrow> cls \<Rightarrow> string \<Rightarrow> classes \<Rightarrow> classes" where
  "Transform transformer c propertyKey st =
     defineMetadata TransformKey (Transformer transformer) (Prototype c) (Some propertyKey) st"

definition Ignore :: "cls \<Rightarrow> string \<Rightarrow> classes \<Rightarrow> classes" where
  "Ignore = AutoMap (Some \<lparr> a_name = None, a_ignore = Some True \<rparr>)"

definition Default :: "jsval \<Rightarrow> cls \<Rightarrow> string \<Rightarrow> classes \<Rightarrow> classes" where
  "Default defaultValue =
     Transform (\<lambda>v obj. Inr (if v = Null then defaultValue
                             else if v = Undefined then defaultValue else v))"

text \<open>
  \<open>Validate\<close> redefines the property on the prototype with a getter and a setter. The
  setter throws when the validator rejects the value, and else hands the value to the
  setter that was there before, or keeps it.
\<close>

definition Validate ::
  "(jsval \<Rightarrow> bool) \<Rightarrow> string option \<Rightarrow> cls \<Rightarrow> string \<Rightarrow> classes \<Rightarrow> classes" where
  "Validate validator errorMessage c propertyKey st =
     (let originalSet = map_of (setters st) (c, propertyKey);
          message = (case errorMessage of
                       Some (x # xs) \<Rightarrow> x # xs
                     | _ \<Rightarrow> ''Validation failed for '' @ propertyKey)
      in st\<lparr> setters :=
               setProp (c, propertyKey)
                 (\<lambda>v. if validator v
                      then (case originalSet of Some g \<Rightarrow> g v | None \<Rightarrow> None)
                      else Some (Raised message))
                 (setters st) \<rparr>)"

text \<open>
  The \<open>AutoMap\<close> of \<open>nestjs/decorators.ts\<close> as a property decorator: it keeps one
  record for the class, on the constructor, under its own symbol.
\<close>

definition NestAutoMap :: "cls option \<Rightarrow> cls \<Rightarrow> string \<Rightarrow> classes \<Rightarrow> classes" where
  "NestAutoMap dst c propertyKey st =
     (let existingProps = (case getMetadata NestAutoMapKey (Constructor c) None st of
                             Some (PropRecord r) \<Rightarrow> r
                           | _ \<Rightarrow> [])
      in defineMetadata NestAutoMapKey (PropRecord (setProp propertyKey dst existingProps))
           (Constructor c) None st)"

text \<open>
  The other decorators of the repository that define metadata, all under keys of their
  own: the \<open>AutoMap\<close> of \<open>nestjs/decorators.ts\<close> as a class decorator,
  \<open>UseMapper\<close>, \<open>MapFrom\<close> and \<open>MapTo\<close> of the same file, and \<open>Mappable\<close> and
  \<open>MapProfile\<close> of \<open>decorators/mapping-class.decorator.ts\<close>. \<open>MapFrom\<close> and
  \<open>MapTo\<close> throw when their argument is the empty string.
\<close>

definition NestAutoMapClass :: "cls option \<Rightarrow> cls \<Rightarrow> classes \<Rightarrow> classes" where
  "NestAutoMapClass dst c st =
     defineMetadata NestAutoMapKey (ClassMark (case dst of Some d \<Rightarrow> d | None \<Rightarrow> c))
       (Constructor c) None st"

definition UseMapper :: "cls \<Rightarrow> cls \<Rightarrow> classes \<Rightarrow> classes" where
  "UseMapper mapperClass c st = defineMetadata UseMapperKey (Other []) (Constructor c) None st"

definition MapFrom :: "string + cls \<Rightarrow> cls \<Rightarrow> string \<Rightarrow> classes \<Rightarrow> error + classes" where
  "MapFrom sourcePropertyOrType c propertyKey st =
     (case sourcePropertyOrType of
        Inl [] \<Rightarrow> Inl (Raised ''@MapFrom requires a source property or class type'')
      | Inl (x # xs) \<Rightarrow>
          Inr (defineMetadata MapperSourceKey (Other (indexKeys (Suc (length xs))))
                 (Prototype c) (Some propertyKey) st)
      | Inr t \<Rightarrow>
          Inr (defineMetadata MapperSourceKey (Other []) (Prototype c) (Some propertyKey) st))"

definition MapTo :: "string + cls \<Rightarrow> cls \<Rightarrow> string \<Rightarrow> classes \<Rightarrow> error + classes" where
  "MapTo destinationPropertyOrType c propertyKey st =
     (case destinationPropertyOrType of
        Inl [] \<Rightarrow> Inl (Raised ''@MapTo requires a destination property or class type'')
      | Inl (x # xs) \<Rightarrow>
          Inr (defineMetadata MapperDestinationKey (Other (indexKeys (Suc (length xs))))
                 (Prototype c) (Some propertyKey) st)
      | Inr t \<Rightarrow>
          Inr (defineMetadata MapperDestinationKey (Other []) (Prototype c) (Some propertyKey)
                 st))"

definition Mappable :: "string list \<Rightarrow> cls \<Rightarrow> classes \<Rightarrow> classes" where
  "Mappable optionKeys c st =
     defineMetadata MappableKey (Other optionKeys) (Constructor c) None st"

definition MapProfile :: "cls list \<Rightarrow> cls \<Rightarrow> classes \<Rightarrow> classes" where
  "MapProfile profiles c st =
     (let existingProfiles = (case getMetadata MapProfilesKey (Constructor c) None st of
                                Some (Other ks) \<Rightarrow> length ks
                              | _ \<Rightarrow> 0)
      in defineMetadata MapProfilesKey (Other (indexKeys (existingProfiles + length profiles)))
           (Constructor c) None st)"

text \<open>
  What classes can be left with by the decorators of the repository, applied in any
  number and order. \<open>Ignore\<close>, \<open>Default\<close> and \<open>DateFormat\<close> are cases of
  \<open>AutoMap\<close> and \<open>Transform\<close>.
\<close>

inductive decorated :: "classes \<Rightarrow> bool" where
  decorated_none: "decorated noClasses"
| decorated_AutoMap: "decorated st \<Longrightarrow> decorated (AutoMap opts c k st)"
| decorated_MapProperty: "decorated st \<Longrightarrow> decorated (MapProperty sourcePath c k st)"
| decorated_MapNested: "decorated st \<Longrightarrow> decorated (MapNested nestedType c k st)"
| decorated_Transform: "decorated st \<Longrightarrow> decorated (Transform transformer c k st)"
| decorated_Validate: "decorated st \<Longrightarrow> decorated (Validate validator errorMessage c k st)"
| decorated_NestAutoMap: "decorated st \<Longrightarrow> decorated (NestAutoMap dst c k st)"
| decorated_NestAutoMapClass: "decorated st \<Longrightarrow> decorated (NestAutoMapClass dst c st)"
| decorated_UseMapper: "decorated st \<Longrightarrow> decorated (UseMapper mapperClass c st)"
| decorated_MapFrom: "decorated st \<Longrightarrow> MapFrom a c k st = Inr st' \<Longrightarrow> decorated st'"
| decorated_MapTo: "decorated st \<Longrightarrow> MapTo a c k st = Inr st' \<Longrightarrow> decorated st'"
| decorated_Mappable: "decorated st \<Longrightarrow> decorated (Mappable optionKeys c st)"
| decorated_MapProfile: "decorated st \<Longrightarrow> decorated (MapProfile profiles c st)"

text \<open>\<open>Object.keys\<close> of a metadata value.\<close>

fun metaKeys :: "metaValue \<Rightarrow> string list" where
  "metaKeys (AutoMapInfo k n i) = [''propertyKey'', ''name'', ''ignore'']"
| "metaKeys (SourcePath p) = indexKeys (length p)"
| "metaKeys (NestedType t) = []"
| "metaKeys (Transformer f) = []"
| "metaKeys (PropRecord r) = map fst r"
| "metaKeys (ClassMark t) = [''__class__'']"
| "metaKeys (Other ks) = ks"

text \<open>
  What the mapper reads of classes decorated so, given their constructors: the auto-map
  record under \<open>AUTO_MAP_METADATA_KEY\<close> on the class itself (mapper.ts, line 837), the
  three other kinds of metadata on the prototype by property (lines 844 to 860), and
  the setters.
\<close>

definition envOf :: "(cls \<Rightarrow> fields) \<Rightarrow> classes \<Rightarrow> env" where
  "envOf ctor st =
     \<lparr> construct = ctor,
       autoMapMeta = (\<lambda>c. case getMetadata AutoMapKey (Constructor c) None st of
                            Some v \<Rightarrow> metaKeys v
                          | None \<Rightarrow> []),
       mapPropertyMeta = (\<lambda>c k. case getMetadata MapPropertyKey (Prototype c) (Some k) st of
                                  Some (SourcePath p) \<Rightarrow> Some p
                                | _ \<Rightarrow> None),
       mapNestedMeta = (\<lambda>c k. case getMetadata MapNestedKey (Prototype c) (Some k) st of
                                Some (NestedType t) \<Rightarrow> Some t
                              | _ \<Rightarrow> None),
       transformMeta = (\<lambda>c k. case getMetadata TransformKey (Prototype c) (Some k) st of
                                Some (Transformer f) \<Rightarrow> Some f
                              | _ \<Rightarrow> None),
       assignCheck = (\<lambda>c k v. case map_of (setters st) (c, k) of
                                Some g \<Rightarrow> g v
                              | None \<Rightarrow> None) \<rparr>"

text \<open>
  The outcome of a call that may call \<open>map\<close> again: \<open>None\<close> when the recursion does
  not end within the given depth, else the value returned or the error thrown, with the
  state the call leaves behind.
\<close>

type_synonym 'a outcome = "((error + 'a) \<times> mapper) option"

subsection \<open>deepClone\<close>

text \<open>
  The clone of an object is a plain object, and every cloned object and array is a new
  one: its identity is taken from the counter, before its parts are cloned.
\<close>

fun deepClone :: "jsval \<Rightarrow> nat \<Rightarrow> jsval \<times> nat"
  and deepCloneList :: "jsval list \<Rightarrow> nat \<Rightarrow> jsval list \<times> nat"
  and deepCloneFields :: "fields \<Rightarrow> nat \<Rightarrow> fields \<times> nat" where
  "deepClone (Arr i xs) n = (case deepCloneList xs (Suc n) of (ys, n') \<Rightarrow> (Arr n ys, n'))"
| "deepClone (Obj i c fs) n =
     (case deepCloneFields fs (Suc n) of (gs, n') \<Rightarrow> (Obj n ObjectClass gs, n'))"
| "deepClone Undefined n = (Undefined, n)"
| "deepClone Null n = (Null, n)"
| "deepClone (Bool b) n = (Bool b, n)"
| "deepClone (Num k) n = (Num k, n)"
| "deepClone (Str s) n = (Str s, n)"
| "deepCloneList [] n = ([], n)"
| "deepCloneList (x # xs) n =
     (case deepClone x n of (y, n1) \<Rightarrow>
        (case deepCloneList xs n1 of (ys, n2) \<Rightarrow> (y # ys, n2)))"
| "deepCloneFields [] n = ([], n)"
| "deepCloneFields (kv # fs) n =
     (case deepClone (snd kv) n of (y, n1) \<Rightarrow>
        (case deepCloneFields fs n1 of (gs, n2) \<Rightarrow> ((fst kv, y) # gs, n2)))"

definition deepCloneIn :: "jsval \<Rightarrow> mapper \<Rightarrow> jsval \<times> mapper" where
  "deepCloneIn v s = (case deepClone v (nextOid s) of (w, n) \<Rightarrow> (w, s\<lparr>nextOid := n\<rparr>))"

subsection \<open>Registration\<close>

definition getRegistryKey :: "cls \<Rightarrow> cls \<Rightarrow> string" where
  "getRegistryKey src dst = cname src @ ''->'' @ cname dst"

definition findEntry :: "mapper \<Rightarrow> cls \<Rightarrow> cls \<Rightarrow> entry option" where
  "findEntry m src dst =
     (case map_of (reverseRegistry m) (getRegistryKey src dst) of
        Some e \<Rightarrow> Some e
      | None \<Rightarrow> find (\<lambda>r. source r = src \<and> destination r = dst) (registry m))"

definition orElse :: "'a option \<Rightarrow> 'a option \<Rightarrow> 'a option" where
  "orElse override base = (case override of Some x \<Rightarrow> Some x | None \<Rightarrow> base)"

text \<open>\<open>Array.from(new Set(xs))\<close>: the first occurrence of every element, in order.\<close>

definition uniq :: "'a list \<Rightarrow> 'a list" where
  "uniq xs = rev (remdups (rev xs))"

definition unionLists :: "string list option \<Rightarrow> string list option \<Rightarrow> string list option" where
  "unionLists base override =
     (if base = None \<and> override = None then None
      else Some (uniq ((case base of Some b \<Rightarrow> b | None \<Rightarrow> [])
                     @ (case override of Some v \<Rightarrow> v | None \<Rightarrow> []))))"

definition mergeCache :: "cacheConfig option \<Rightarrow> cacheConfig option \<Rightarrow> cacheConfig option" where
  "mergeCache base override =
     (if base = None \<and> override = None then None
      else Some \<lparr> enabled = orElse (case override of Some c \<Rightarrow> enabled c | None \<Rightarrow> None)
                                  (case base of Some c \<Rightarrow> enabled c | None \<Rightarrow> None) \<rparr>)"

definition mergeOptions :: "options \<Rightarrow> options option \<Rightarrow> options" where
  "mergeOptions base override =
     (case override of
        None \<Rightarrow>
          base\<lparr> ignore := unionLists (ignore base) None,
                includeList := unionLists (includeList base) None,
                cache := mergeCache (cache base) None \<rparr>
      | Some ov \<Rightarrow>
          \<lparr> skipNulls = orElse (skipNulls ov) (skipNulls base),
            skipUndefined = orElse (skipUndefined ov) (skipUndefined base),
            deepCloneFlag = orElse (deepCloneFlag ov) (deepCloneFlag base),
            strict = orElse (strict ov) (strict base),
            beforeMap = orElse (beforeMap ov) (beforeMap base),
            afterMap = orElse (afterMap ov) (afterMap base),
            cache = mergeCache (cache base) (cache ov),
            ignore = unionLists (ignore base) (ignore ov),
            includeList = unionLists (includeList base) (includeList ov),
            deepCloneBeforeMap = orElse (deepCloneBeforeMap ov) (deepCloneBeforeMap base),
            convertNaming = orElse (convertNaming ov) (convertNaming base) \<rparr>)"

text \<open>
  \<open>createMap\<close>: the entry is appended to the registry and filed under its key, and the
  synchronous function is compiled at once, which files it under the same key.
\<close>

definition createMap ::
  "cls \<Rightarrow> cls \<Rightarrow> mappingConfig option \<Rightarrow> options option \<Rightarrow> mapper \<Rightarrow> mapper" where
  "createMap src dst cfg opts m =
     (let e = \<lparr> source = src, destination = dst, config = cfg,
                options = mergeOptions (globalOptions m) opts \<rparr>;
          key = getRegistryKey src dst
      in m\<lparr> registry := registry m @ [e],
            reverseRegistry := setProp key e (reverseRegistry m),
            compiledMapFns := setProp key e (compiledMapFns m) \<rparr>)"

text \<open>The constructor called without options.\<close>

definition newMapper :: mapper where
  "newMapper = \<lparr> registry = [], globalOptions = noOptions, reverseRegistry = [],
     compiledMapFns = [], compiledAsyncMapFns = [], instanceCache = [],
     cacheConfig = Some \<lparr> enabled = Some False \<rparr>, nextOid = 0, fnCalls = 0 \<rparr>"


definition isGlobalCacheEnabled :: "mapper \<Rightarrow> bool" where
  "isGlobalCacheEnabled m = (case cacheConfig m of Some c \<Rightarrow> flag (enabled c) | None \<Rightarrow> False)"

text \<open>The per-entry setting, when there is one, decides; else the global one.\<close>

definition isCacheEnabled :: "mapper \<Rightarrow> entry \<Rightarrow> bool" where
  "isCacheEnabled m e =
     (case cache (options e) of
        Some c \<Rightarrow> (case enabled c of Some b \<Rightarrow> b | None \<Rightarrow> isGlobalCacheEnabled m)
      | None \<Rightarrow> isGlobalCacheEnabled m)"






section \<open>The compiled mapping function\<close>

subsection \<open>Default field copy\<close>

definition listHas :: "string list option \<Rightarrow> string \<Rightarrow> bool" where
  "listHas xs k = (case xs of Some l \<Rightarrow> List.member l k | None \<Rightarrow> False)"

definition listLacks :: "string list option \<Rightarrow> string \<Rightarrow> bool" where
  "listLacks xs k = (case xs of Some l \<Rightarrow> \<not> List.member l k | None \<Rightarrow> False)"

definition targetKey :: "options \<Rightarrow> string \<Rightarrow> error + string" where
  "targetKey opts k =
     (case convertNaming opts of
        None \<Rightarrow> Inr k
      | Some ft \<Rightarrow> convertNamingConvention k (fst ft) (snd ft))"

definition cloneIf :: "bool \<Rightarrow> jsval \<Rightarrow> mapper \<Rightarrow> jsval \<times> mapper" where
  "cloneIf b v s = (if b then deepCloneIn v s else (v, s))"

text \<open>
  The assignment \<open>dest[key] = value\<close> on the destination under construction, an
  instance of the class \<open>c\<close>.
\<close>

definition assign :: "env \<Rightarrow> cls \<Rightarrow> string \<Rightarrow> jsval \<Rightarrow> fields \<Rightarrow> error + fields" where
  "assign env c k v dest =
     (case assignCheck env c k v of
        Some er \<Rightarrow> Inl er
      | None \<Rightarrow> Inr (setProp k v dest))"

text \<open>
  The loop \<open>for (const k in src)\<close> over the keys still to visit; \<open>dest\<close> holds the
  fields of the destination so far, an instance of the class \<open>c\<close>.
\<close>

fun copyProperties ::
  "env \<Rightarrow> cls \<Rightarrow> options \<Rightarrow> jsval \<Rightarrow> string list \<Rightarrow> fields \<Rightarrow> mapper
     \<Rightarrow> (error + fields) \<times> mapper" where
  "copyProperties env c opts src [] dest s = (Inr dest, s)"
| "copyProperties env c opts src (k # ks) dest s =
     (if listHas (ignore opts) k then copyProperties env c opts src ks dest s
      else if listLacks (includeList opts) k then copyProperties env c opts src ks dest s
      else if flag (skipNulls opts) \<and> getProp src k = Null
        then copyProperties env c opts src ks dest s
      else if flag (skipUndefined opts) \<and> getProp src k = Undefined
        then copyProperties env c opts src ks dest s
      else
        (case targetKey opts k of
           Inl er \<Rightarrow> (Inl er, s)
         | Inr t \<Rightarrow>
             (if List.member (map fst dest) t
              then (case cloneIf (flag (deepCloneFlag opts)) (getProp src k) s of
                      (v, s') \<Rightarrow>
                        (case assign env c t v dest of
                           Inl er \<Rightarrow> (Inl er, s')
                         | Inr dest' \<Rightarrow> copyProperties env c opts src ks dest' s'))
              else copyProperties env c opts src ks dest s)))"

subsection \<open>Explicit field functions\<close>

definition suppressed :: "options \<Rightarrow> jsval \<Rightarrow> bool" where
  "suppressed opts v =
     (flag (skipNulls opts) \<and> v = Null \<or> flag (skipUndefined opts) \<and> v = Undefined)"

definition countCall :: "mapper \<Rightarrow> mapper" where
  "countCall s = s\<lparr> fnCalls := Suc (fnCalls s) \<rparr>"

text \<open>
  The loop \<open>for (const destKey in entry.config)\<close>. The call of the field function
  and the assignment of its value both stand inside the \<open>try\<close>: what either throws is
  thrown again under \<open>strict\<close> and dropped otherwise.
\<close>

fun applyConfig ::
  "env \<Rightarrow> cls \<Rightarrow> options \<Rightarrow> jsval \<Rightarrow> mappingConfig \<Rightarrow> fields \<Rightarrow> mapper
     \<Rightarrow> (error + fields) \<times> mapper" where
  "applyConfig env c opts src [] dest s = (Inr dest, s)"
| "applyConfig env c opts src (kf # rest) dest s =
     (case run (snd kf) src of
        Inr v \<Rightarrow>
          (if suppressed opts v then applyConfig env c opts src rest dest (countCall s)
           else (case assign env c (fst kf) v dest of
                   Inr dest' \<Rightarrow> applyConfig env c opts src rest dest' (countCall s)
                 | Inl er \<Rightarrow>
                     (if flag (strict opts) then (Inl er, countCall s)
                      else applyConfig env c opts src rest dest (countCall s))))
      | Inl er \<Rightarrow>
          (if flag (strict opts) then (Inl er, countCall s)
           else applyConfig env c opts src rest dest (countCall s)))"

subsection \<open>Decorator-driven fields\<close>

definition configHas :: "entry \<Rightarrow> string \<Rightarrow> bool" where
  "configHas e k = (case config e of Some cfg \<Rightarrow> map_of cfg k \<noteq> None | None \<Rightarrow> False)"

text \<open>\<open>sourcePath.split('.')\<close> followed, from the source, with \<open>val?.[p]\<close>.\<close>

definition resolvePath :: "jsval \<Rightarrow> string \<Rightarrow> jsval" where
  "resolvePath src sourcePath = foldl getPropOpt src (splitChar CHR ''.'' [] sourcePath)"

definition applyTransformer ::
  "(jsval \<Rightarrow> jsval \<Rightarrow> error + jsval) option \<Rightarrow> jsval \<Rightarrow> jsval \<Rightarrow> error + jsval" where
  "applyTransformer tr val src = (case tr of Some t \<Rightarrow> t val src | None \<Rightarrow> Inr val)"

text \<open>
  \<open>nestedVal.map(it => this.map(it, nestedType))\<close>, where \<open>rec\<close> stands for
  \<open>this.map\<close>: element by element, up to the first element whose mapping throws.
\<close>

fun mapElements ::
  "(jsval \<Rightarrow> cls \<Rightarrow> mapper \<Rightarrow> jsval outcome) \<Rightarrow> jsval list \<Rightarrow> cls \<Rightarrow> mapper
     \<Rightarrow> (jsval list) outcome" where
  "mapElements rec [] t s = Some (Inr [], s)"
| "mapElements rec (x # xs) t s =
     (case rec x t s of
        None \<Rightarrow> None
      | Some (Inl er, s1) \<Rightarrow> Some (Inl er, s1)
      | Some (Inr y, s1) \<Rightarrow>
          (case mapElements rec xs t s1 of
             None \<Rightarrow> None
           | Some (Inl er, s2) \<Rightarrow> Some (Inl er, s2)
           | Some (Inr ys, s2) \<Rightarrow> Some (Inr (y # ys), s2)))"

definition mapNestedValue ::
  "(jsval \<Rightarrow> cls \<Rightarrow> mapper \<Rightarrow> jsval outcome) \<Rightarrow> jsval \<Rightarrow> cls \<Rightarrow> mapper \<Rightarrow> jsval outcome" where
  "mapNestedValue rec nestedVal nestedType s =
     (case nestedVal of
        Undefined \<Rightarrow> Some (Inr Undefined, s)
      | Null \<Rightarrow> Some (Inr Null, s)
      | Arr i xs \<Rightarrow>
          (case mapElements rec xs nestedType (s\<lparr> nextOid := Suc (nextOid s) \<rparr>) of
             None \<Rightarrow> None
           | Some (Inl er, s1) \<Rightarrow> Some (Inl er, s1)
           | Some (Inr ys, s1) \<Rightarrow> Some (Inr (Arr (nextOid s) ys), s1))
      | _ \<Rightarrow> rec nestedVal nestedType s)"

text \<open>\<open>if (sourcePath)\<close>: a string counts when it is not empty.\<close>

definition nonEmptyPath :: "string option \<Rightarrow> string option" where
  "nonEmptyPath sp = (case sp of Some (c # cs) \<Rightarrow> Some (c # cs) | _ \<Rightarrow> None)"

text \<open>
  The body of the loop over the keys of the auto-map metadata, for a key that is not
  skipped: the value to assign, or \<open>None\<close> when nothing is assigned. The source path is
  tested first, then the nested-type factory, then the same-named source field.
\<close>

definition resolveField ::
  "(jsval \<Rightarrow> cls \<Rightarrow> mapper \<Rightarrow> jsval outcome) \<Rightarrow> env \<Rightarrow> entry \<Rightarrow> jsval \<Rightarrow> string \<Rightarrow> mapper
     \<Rightarrow> (jsval option) outcome" where
  "resolveField rec env e src destKey s =
     (let transformer = transformMeta env (destination e) destKey
      in case nonEmptyPath (mapPropertyMeta env (destination e) destKey) of
           Some sourcePath \<Rightarrow>
             (case applyTransformer transformer (resolvePath src sourcePath) src of
                Inl er \<Rightarrow> Some (Inl er, s)
              | Inr v \<Rightarrow> Some (Inr (Some v), s))
         | None \<Rightarrow>
             (case mapNestedMeta env (destination e) destKey of
                Some nestedType \<Rightarrow>
                  (case getPropStrict src destKey of
                     Inl er \<Rightarrow> Some (Inl er, s)
                   | Inr nestedVal \<Rightarrow>
                       (case mapNestedValue rec nestedVal nestedType s of
                          None \<Rightarrow> None
                        | Some (Inl er, s1) \<Rightarrow> Some (Inl er, s1)
                        | Some (Inr v, s1) \<Rightarrow> Some (Inr (Some v), s1)))
              | None \<Rightarrow>
                  (case hasIn destKey src of
                     Inl er \<Rightarrow> Some (Inl er, s)
                   | Inr False \<Rightarrow> Some (Inr None, s)
                   | Inr True \<Rightarrow>
                       (case applyTransformer transformer (getProp src destKey) src of
                          Inl er \<Rightarrow> Some (Inl er, s)
                        | Inr v \<Rightarrow> Some (Inr (Some v), s)))))"

fun autoMapFields ::
  "(jsval \<Rightarrow> cls \<Rightarrow> mapper \<Rightarrow> jsval outcome) \<Rightarrow> env \<Rightarrow> entry \<Rightarrow> jsval \<Rightarrow> string list
     \<Rightarrow> fields \<Rightarrow> mapper \<Rightarrow> fields outcome" where
  "autoMapFields rec env e src [] dest s = Some (Inr dest, s)"
| "autoMapFields rec env e src (destKey # ks) dest s =
     (if configHas e destKey then autoMapFields rec env e src ks dest s
      else if lookupField dest destKey \<noteq> Undefined then autoMapFields rec env e src ks dest s
      else (case resolveField rec env e src destKey s of
              None \<Rightarrow> None
            | Some (Inl er, s1) \<Rightarrow> Some (Inl er, s1)
            | Some (Inr None, s1) \<Rightarrow> autoMapFields rec env e src ks dest s1
            | Some (Inr (Some v), s1) \<Rightarrow>
                (case assign env (destination e) destKey v dest of
                   Inl er \<Rightarrow> Some (Inl er, s1)
                 | Inr dest' \<Rightarrow> autoMapFields rec env e src ks dest' s1)))"

subsection \<open>The closure\<close>

definition applyConfigOpt ::
  "env \<Rightarrow> entry \<Rightarrow> jsval \<Rightarrow> fields \<Rightarrow> mapper \<Rightarrow> (error + fields) \<times> mapper" where
  "applyConfigOpt env e src dest s =
     (case config e of
        Some cfg \<Rightarrow> applyConfig env (destination e) (options e) src cfg dest s
      | None \<Rightarrow> (Inr dest, s))"

text \<open>
  \<open>compiledFn\<close>, the closure \<open>compileMapFunction\<close> returns for an entry: a new
  destination, the default copy, the field functions, the decorator-driven fields.
\<close>

definition compiledFn ::
  "(jsval \<Rightarrow> cls \<Rightarrow> mapper \<Rightarrow> jsval outcome) \<Rightarrow> env \<Rightarrow> entry \<Rightarrow> jsval \<Rightarrow> mapper
     \<Rightarrow> jsval outcome" where
  "compiledFn rec env e src s =
     (let oid = nextOid s;
          dest0 = construct env (destination e)
      in case copyProperties env (destination e) (options e) src (enumKeys src) dest0
                (s\<lparr> nextOid := Suc oid \<rparr>) of
           (Inl er, s1) \<Rightarrow> Some (Inl er, s1)
         | (Inr dest1, s1) \<Rightarrow>
             (case applyConfigOpt env e src dest1 s1 of
                (Inl er, s2) \<Rightarrow> Some (Inl er, s2)
              | (Inr dest2, s2) \<Rightarrow>
                  (case autoMapFields rec env e src (autoMapMeta env (destination e)) dest2 s2 of
                     None \<Rightarrow> None
                   | Some (Inl er, s3) \<Rightarrow> Some (Inl er, s3)
                   | Some (Inr dest3, s3) \<Rightarrow> Some (Inr (Obj oid (destination e) dest3), s3))))"

text \<open>
  \<open>asyncFn\<close>, the closure \<open>compileAsyncMapFunction\<close> returns, repeats the text of
  \<open>compiledFn\<close> with every field function and nested mapping awaited; \<open>rec\<close> is then
  \<open>this.mapAsync\<close>. The element mappings that \<open>Promise.all\<close> runs together are
  taken one after the other.
\<close>

definition asyncFn ::
  "(jsval \<Rightarrow> cls \<Rightarrow> mapper \<Rightarrow> jsval outcome) \<Rightarrow> env \<Rightarrow> entry \<Rightarrow> jsval \<Rightarrow> mapper
     \<Rightarrow> jsval outcome" where
  "asyncFn rec env e src s = compiledFn rec env e src s"

section \<open>map and mapAsync\<close>

definition createMappingError :: "string \<Rightarrow> string \<Rightarrow> string \<Rightarrow> error option \<Rightarrow> error" where
  "createMappingError sourceType destinationType message originalError =
     MappingError sourceType destinationType message originalError"

text \<open>The cache check at the head of both operations; a cached value counts when truthy.\<close>

definition cachedResult :: "mapper \<Rightarrow> entry \<Rightarrow> jsval \<Rightarrow> cls \<Rightarrow> jsval option" where
  "cachedResult s e sourceObj destinationClass =
     (if isCacheEnabled s e
      then (case weakKey sourceObj of
              None \<Rightarrow> None
            | Some i \<Rightarrow>
                (case map_of (instanceCache s) (i, destinationClass) of
                   Some r \<Rightarrow> (if truthy r then Some r else None)
                 | None \<Rightarrow> None))
      else None)"

text \<open>The store at the end of both: \<open>WeakMap.set\<close> throws on a key that is no object.\<close>

definition storeResult :: "entry \<Rightarrow> jsval \<Rightarrow> cls \<Rightarrow> jsval \<Rightarrow> mapper \<Rightarrow> jsval outcome" where
  "storeResult e sourceObj destinationClass result s =
     (if isCacheEnabled s e
      then (case weakKey sourceObj of
              None \<Rightarrow> Some (Inl TypeError, s)
            | Some i \<Rightarrow>
                Some (Inr result,
                      s\<lparr> instanceCache := setProp (i, destinationClass) result (instanceCache s) \<rparr>))
      else Some (Inr result, s))"

definition runHook :: "(jsval \<Rightarrow> error + jsval) option \<Rightarrow> jsval \<Rightarrow> error + jsval" where
  "runHook h v = (case h of Some f \<Rightarrow> f v | None \<Rightarrow> Inr v)"

text \<open>
  The compiled function filed under the key, or else the entry compiled now and filed.
\<close>

definition getCompiled :: "entry \<Rightarrow> mapper \<Rightarrow> entry \<times> mapper" where
  "getCompiled e s =
     (let key = getRegistryKey (source e) (destination e)
      in case map_of (compiledMapFns s) key of
           Some ce \<Rightarrow> (ce, s)
         | None \<Rightarrow> (e, s\<lparr> compiledMapFns := setProp key e (compiledMapFns s) \<rparr>))"

definition getCompiledAsync :: "entry \<Rightarrow> mapper \<Rightarrow> entry \<times> mapper" where
  "getCompiledAsync e s =
     (let key = getRegistryKey (source e) (destination e)
      in case map_of (compiledAsyncMapFns s) key of
           Some ce \<Rightarrow> (ce, s)
         | None \<Rightarrow> (e, s\<lparr> compiledAsyncMapFns := setProp key e (compiledAsyncMapFns s) \<rparr>))"

text \<open>The statements inside \<open>try\<close> in \<open>map\<close>.\<close>

definition mapTry ::
  "(jsval \<Rightarrow> cls \<Rightarrow> mapper \<Rightarrow> jsval outcome) \<Rightarrow> env \<Rightarrow> entry \<Rightarrow> jsval \<Rightarrow> cls \<Rightarrow> mapper
     \<Rightarrow> jsval outcome" where
  "mapTry rec env e sourceObj destinationClass s =
     (case (case beforeMap (options e) of
              None \<Rightarrow> (Inr sourceObj, s)
            | Some h \<Rightarrow>
                (case cloneIf (flag (deepCloneBeforeMap (options e))) sourceObj s of
                   (arg, s') \<Rightarrow> (h arg, s'))) of
        (Inl er, s1) \<Rightarrow> Some (Inl er, s1)
      | (Inr preProcessed, s1) \<Rightarrow>
          (case getCompiled e s1 of
             (ce, s2) \<Rightarrow>
               (case compiledFn rec env ce preProcessed s2 of
                  None \<Rightarrow> None
                | Some (Inl er, s3) \<Rightarrow> Some (Inl er, s3)
                | Some (Inr result, s3) \<Rightarrow>
                    (case runHook (afterMap (options e)) result of
                       Inl er \<Rightarrow> Some (Inl er, s3)
                     | Inr final \<Rightarrow> storeResult e sourceObj destinationClass final s3))))"

text \<open>The \<open>catch\<close> of \<open>map\<close>: whatever was thrown is wrapped.\<close>

definition catchWrap :: "string \<Rightarrow> string \<Rightarrow> jsval outcome \<Rightarrow> jsval outcome" where
  "catchWrap sourceType destinationType r =
     (case r of
        None \<Rightarrow> None
      | Some (Inl er, s) \<Rightarrow>
          Some (Inl (createMappingError sourceType destinationType ''Mapping failed'' (Some er)), s)
      | Some (Inr v, s) \<Rightarrow> Some (Inr v, s))"

definition mapBody ::
  "(jsval \<Rightarrow> cls \<Rightarrow> mapper \<Rightarrow> jsval outcome) \<Rightarrow> env \<Rightarrow> jsval \<Rightarrow> cls
     \<Rightarrow> transformOptions option \<Rightarrow> mapper \<Rightarrow> jsval outcome" where
  "mapBody rec env sourceObj destinationClass opts s =
     (case classOf sourceObj of
        Inl er \<Rightarrow> Some (Inl er, s)
      | Inr c \<Rightarrow>
          (case findEntry s c destinationClass of
             None \<Rightarrow>
               Some (Inl (createMappingError (cname c) (cname destinationClass)
                            ''Mapping not found'' None), s)
           | Some e \<Rightarrow>
               (case cachedResult s e sourceObj destinationClass of
                  Some cached \<Rightarrow> Some (Inr cached, s)
                | None \<Rightarrow>
                    catchWrap (cname c) (cname destinationClass)
                      (mapTry rec env e sourceObj destinationClass s))))"

text \<open>
  \<open>map\<close>. The first argument bounds the depth of the nested \<open>this.map\<close> calls the
  compiled function makes; those calls pass no third argument.
\<close>

primrec map_sync ::
  "nat \<Rightarrow> env \<Rightarrow> jsval \<Rightarrow> cls \<Rightarrow> transformOptions option \<Rightarrow> mapper \<Rightarrow> jsval outcome" where
  "map_sync 0 env sourceObj destinationClass opts s = None"
| "map_sync (Suc n) env sourceObj destinationClass opts s =
     mapBody (\<lambda>v t. map_sync n env v t None) env sourceObj destinationClass opts s"

text \<open>The body of \<open>mapAsync\<close> after the cache check; nothing in it catches.\<close>

definition mapAsyncRun ::
  "(jsval \<Rightarrow> cls \<Rightarrow> mapper \<Rightarrow> jsval outcome) \<Rightarrow> env \<Rightarrow> entry \<Rightarrow> jsval \<Rightarrow> cls \<Rightarrow> mapper
     \<Rightarrow> jsval outcome" where
  "mapAsyncRun rec env e sourceObj destinationClass s =
     (case (case beforeMap (options e) of
              None \<Rightarrow> (Inr sourceObj, s)
            | Some h \<Rightarrow> (case deepCloneIn sourceObj s of (arg, s') \<Rightarrow> (h arg, s'))) of
        (Inl er, s1) \<Rightarrow> Some (Inl er, s1)
      | (Inr preProcessed, s1) \<Rightarrow>
          (case getCompiledAsync e s1 of
             (ce, s2) \<Rightarrow>
               (case asyncFn rec env ce preProcessed s2 of
                  None \<Rightarrow> None
                | Some (Inl er, s3) \<Rightarrow> Some (Inl er, s3)
                | Some (Inr result, s3) \<Rightarrow>
                    (case runHook (afterMap (options e)) result of
                       Inl er \<Rightarrow> Some (Inl er, s3)
                     | Inr final \<Rightarrow> storeResult e sourceObj destinationClass final s3))))"

definition mapAsyncBody ::
  "(jsval \<Rightarrow> cls \<Rightarrow> mapper \<Rightarrow> jsval outcome) \<Rightarrow> env \<Rightarrow> jsval \<Rightarrow> cls
     \<Rightarrow> transformOptions option \<Rightarrow> mapper \<Rightarrow> jsval outcome" where
  "mapAsyncBody rec env sourceObj destinationClass opts s =
     (case classOf sourceObj of
        Inl er \<Rightarrow> Some (Inl er, s)
      | Inr c \<Rightarrow>
          (case findEntry s c destinationClass of
             None \<Rightarrow>
               Some (Inl (createMappingError (cname c) (cname destinationClass)
                            ''Mapping not found'' None), s)
           | Some e \<Rightarrow>
               (case cachedResult s e sourceObj destinationClass of
                  Some cached \<Rightarrow> Some (Inr cached, s)
                | None \<Rightarrow> mapAsyncRun rec env e sourceObj destinationClass s)))"

text \<open>\<open>mapAsync\<close>; an outcome \<open>Inl\<close> is a rejected promise.\<close>

primrec mapAsync ::
  "nat \<Rightarrow> env \<Rightarrow> jsval \<Rightarrow> cls \<Rightarrow> transformOptions option \<Rightarrow> mapper \<Rightarrow> jsval outcome" where
  "mapAsync 0 env sourceObj destinationClass opts s = None"
| "mapAsync (Suc n) env sourceObj destinationClass opts s =
     mapAsyncBody (\<lambda>v t. mapAsync n env v t None) env sourceObj destinationClass opts s"

section \<open>What a mapping call leaves of the state\<close>

text \<open>
  The relation of the state before a piece of the mapping code to the state after it:
  registrations, global options and cache configuration stay, and the count of
  field-function calls does not go down.
\<close>

definition frame :: "mapper \<Rightarrow> mapper \<Rightarrow> bool" where
  "frame s s' =
     (registry s' = registry s \<and> reverseRegistry s' = reverseRegistry s
      \<and> globalOptions s' = globalOptions s \<and> cacheConfig s' = cacheConfig s
      \<and> fnCalls s \<le> fnCalls s')"



section \<open>Object identities\<close>

text \<open>
  The identities of the objects and arrays a value consists of: its own and those of
  its parts.
\<close>

fun oids :: "jsval \<Rightarrow> nat list"
  and oidsList :: "jsval list \<Rightarrow> nat list"
  and oidsFields :: "fields \<Rightarrow> nat list" where
  "oids (Arr i xs) = i # oidsList xs"
| "oids (Obj i c fs) = i # oidsFields fs"
| "oids Undefined = []"
| "oids Null = []"
| "oids (Bool b) = []"
| "oids (Num k) = []"
| "oids (Str s) = []"
| "oidsList [] = []"
| "oidsList (x # xs) = oids x @ oidsList xs"
| "oidsFields [] = []"
| "oidsFields (kv # fs) = oids (snd kv) @ oidsFields fs"

text \<open>The entries \<open>findEntry\<close> can return.\<close>

definition entriesOf :: "mapper \<Rightarrow> entry list" where
  "entriesOf s = registry s @ map snd (reverseRegistry s)"

text \<open>
  No \<open>beforeMap\<close> hook of a registered entry brings in the object of identity \<open>j\<close>:
  what a hook returns has that object as a part only if the hook's argument had.
\<close>

definition hooksAvoid :: "nat \<Rightarrow> mapper \<Rightarrow> bool" where
  "hooksAvoid j s =
     (\<forall>e \<in> set (entriesOf s). \<forall>h v r.
        beforeMap (options e) = Some h \<longrightarrow> h v = Inr r \<longrightarrow> j \<notin> set (oids v)
          \<longrightarrow> j \<notin> set (oids r))"

text \<open>
  From the first state to the second no identity is given out again, and what the
  instance cache holds for the object of identity \<open>j\<close> is the same.
\<close>

definition kept :: "nat \<Rightarrow> mapper \<Rightarrow> mapper \<Rightarrow> bool" where
  "kept j s s' =
     (nextOid s \<le> nextOid s'
      \<and> (\<forall>c. map_of (instanceCache s') (j, c) = map_of (instanceCache s) (j, c)))"


section \<open>The round trip\<close>

section \<open>Example classes and inputs\<close>

definition SourceC :: cls where
  "SourceC = Cls ''Source'' 1"

definition TargetC :: cls where
  "TargetC = Cls ''Target'' 2"

definition UserA :: cls where
  "UserA = Cls ''User'' 3"

definition UserB :: cls where
  "UserB = Cls ''User'' 4"

text \<open>A \<open>Target\<close> is constructed with the fields \<open>name\<close> and \<open>age\<close>; no decorators.\<close>

definition plainEnv :: env where
  "plainEnv = \<lparr> construct = (\<lambda>c. if c = TargetC then [(''name'', Undefined), (''age'', Undefined)]
                               else []),
     autoMapMeta = (\<lambda>c. []), mapPropertyMeta = (\<lambda>c k. None), mapNestedMeta = (\<lambda>c k. None),
     transformMeta = (\<lambda>c k. None), assignCheck = (\<lambda>c k v. None) \<rparr>"

definition john :: jsval where
  "john = Obj 100 SourceC [(''name'', Str ''John''), (''age'', Num 30)]"

definition constFn :: "jsval \<Rightarrow> fieldFn" where
  "constFn v = FieldFn (\<lambda>src. Inr v) None"

definition throwingFn :: "string \<Rightarrow> fieldFn" where
  "throwingFn msg = FieldFn (\<lambda>src. Inl (Raised msg)) None"

definition strictMapper :: mapper where
  "strictMapper = createMap SourceC TargetC (Some [(''name'', throwingFn ''boom'')])
     (Some (noOptions\<lparr> strict := Some True \<rparr>)) newMapper"

definition twoUsersMapper :: mapper where
  "twoUsersMapper =
     createMap UserB TargetC (Some [(''name'', constFn (Str ''from B''))]) None
       (createMap UserA TargetC (Some [(''name'', constFn (Str ''from A''))]) None newMapper)"

definition renameMapper :: mapper where
  "renameMapper = createMap SourceC TargetC (Some [(''name'', constFn (Str ''X''))]) None newMapper"











definition PersonC :: cls where
  "PersonC = Cls ''Person'' 5"

definition PersonDto :: cls where
  "PersonDto = Cls ''PersonDto'' 6"

definition AddressC :: cls where
  "AddressC = Cls ''Address'' 7"

definition AddressDto :: cls where
  "AddressDto = Cls ''AddressDto'' 8"

text \<open>
  The classes of a person and an address and their DTOs, decorated as in
  \<^verbatim>\<open>class AddressDto { @AutoMap() city: string }\<close> and
  \<^verbatim>\<open>class PersonDto { @AutoMap() @MapNested(() => AddressDto) home: AddressDto }\<close>.
  A field declared without an initialiser is no property of the new instance.
\<close>

definition dtoClasses :: classes where
  "dtoClasses =
     AutoMap None PersonDto ''home''
       (MapNested AddressDto PersonDto ''home'' (AutoMap None AddressDto ''city'' noClasses))"

definition dtoEnv :: env where
  "dtoEnv = envOf (\<lambda>c. []) dtoClasses"

text \<open>
  The same classes when every declared field is a property of the new instance,
  holding \<open>undefined\<close>.
\<close>

definition dtoEnvDefined :: env where
  "dtoEnvDefined =
     envOf (\<lambda>c. if c = PersonDto then [(''home'', Undefined)]
                else if c = AddressDto then [(''city'', Undefined)] else []) dtoClasses"

text \<open>
  The README's \<^verbatim>\<open>class TargetDTO { @AutoMap() name: string; @AutoMap() age: number }\<close>.
\<close>

definition readmeClasses :: classes where
  "readmeClasses = AutoMap None TargetC ''age'' (AutoMap None TargetC ''name'' noClasses)"

definition readmeEnv :: env where
  "readmeEnv = envOf (\<lambda>c. []) readmeClasses"

definition readmeMapper :: mapper where
  "readmeMapper = createMap SourceC TargetC None None newMapper"

text \<open>
  \<open>PersonDto\<close> with its field decorated by the \<open>AutoMap\<close> of \<open>nestjs/decorators.ts\<close>.
\<close>

definition nestClasses :: classes where
  "nestClasses = NestAutoMap (Some AddressDto) PersonDto ''home'' noClasses"

definition nestEnv :: env where
  "nestEnv = envOf (\<lambda>c. []) nestClasses"

definition person :: jsval where
  "person = Obj 200 PersonC
     [(''home'', Obj 201 AddressC [(''city'', Str ''Oslo'')])]"

definition nestedMapper :: mapper where
  "nestedMapper = createMap AddressC AddressDto None None
     (createMap PersonC PersonDto None None newMapper)"




























section \<open>Field lists\<close>

lemma map_of_setProp: "map_of (setProp k v ps) k' = (if k' = k then Some v else map_of ps k')"
  by (induction ps) auto

lemma lookupField_setProp:
  "lookupField (setProp k v fs) k' = (if k' = k then v else lookupField fs k')"
  by (simp add: lookupField_def map_of_setProp)

section \<open>What each step of the compiled function leaves alone\<close>


lemma applyConfig_other:
  assumes "k \<notin> fst ` set cfg"
    and "applyConfig env c opts src cfg dest s = (Inr dest', s')"
  shows "map_of dest' k = map_of dest k"
  using assms
proof (induction cfg arbitrary: dest s)
  case Nil
  then show ?case by simp
next
  case (Cons kf cfg)
  then show ?case
    by (auto simp: assign_def map_of_setProp split: if_splits sum.splits option.splits)
qed



text \<open>
  A key whose assignment throws keeps its value too, when the loop goes on to its end.
\<close>

lemma applyConfig_rejected:
  assumes "distinct (map fst cfg)" and "(k, f) \<in> set cfg" and "run f src = Inr v"
    and "assignCheck env c k v = Some er"
    and "applyConfig env c opts src cfg dest s = (Inr dest', s')"
  shows "map_of dest' k = map_of dest k"
  using assms
proof (induction cfg arbitrary: dest s)
  case Nil
  then show ?case by simp
next
  case (Cons kf cfg)
  show ?case
  proof (cases "kf = (k, f)")
    case True
    with Cons.prems have notin: "k \<notin> fst ` set cfg" by auto
    from True Cons.prems
    have "applyConfig env c opts src cfg dest (countCall s) = (Inr dest', s')"
      by (simp add: assign_def split: if_splits)
    from applyConfig_other [OF notin this] show ?thesis .
  next
    case False
    with Cons.prems have mem: "(k, f) \<in> set cfg" and d: "distinct (map fst cfg)" by auto
    from mem have "k \<in> fst ` set cfg" by force
    with Cons.prems(1) have ne: "fst kf \<noteq> k" by auto
    from Cons.prems(5) obtain d1 s1 where
      step: "applyConfig env c opts src cfg d1 s1 = (Inr dest', s')"
      and d1: "d1 = dest \<or> (\<exists>v. d1 = setProp (fst kf) v dest)"
      by (auto simp: assign_def split: if_splits sum.splits option.splits)
    from d1 ne have "map_of d1 k = map_of dest k" by (auto simp: map_of_setProp)
    with Cons.IH [OF d mem Cons.prems(3,4) step] show ?thesis by simp
  qed
qed





section \<open>Registrations and the call count across a mapping call\<close>



lemma frame_nextOid [simp]: "frame s (s'\<lparr> nextOid := n \<rparr>) = frame s s'"
  by (simp add: frame_def)

lemma frame_nextOid_left [simp]: "frame (s\<lparr> nextOid := n \<rparr>) s' = frame s s'"
  by (simp add: frame_def)

lemma frame_instanceCache [simp]: "frame s (s'\<lparr> instanceCache := c \<rparr>) = frame s s'"
  by (simp add: frame_def)

lemma frame_compiledMapFns [simp]: "frame s (s'\<lparr> compiledMapFns := c \<rparr>) = frame s s'"
  by (simp add: frame_def)




























section \<open>The table of a reverse map\<close>







section \<open>Calls that need no nested mapping return\<close>

text \<open>
  Only a nested-type annotation makes the compiled function call \<open>map\<close> again. Where
  no class has one, a call of \<open>map\<close> or \<open>mapAsync\<close> returns or throws at depth one.
\<close>

lemma autoMapFields_returns:
  assumes "\<forall>c k. mapNestedMeta env c k = None"
  shows "autoMapFields rec env e src ks dest s \<noteq> None"
proof (induction ks arbitrary: dest s)
  case Nil
  show ?case by simp
next
  case (Cons d ks)
  have "resolveField rec env e src d s \<noteq> None"
    using assms
    by (simp add: resolveField_def Let_def split: option.splits sum.splits bool.splits)
  with Cons show ?case
    by (auto simp: assign_def split: option.splits sum.splits prod.splits)
qed

lemma compiledFn_returns:
  assumes "\<forall>c k. mapNestedMeta env c k = None"
  shows "compiledFn rec env e src s \<noteq> None"
proof
  assume "compiledFn rec env e src s = None"
  then obtain d2 s2 where
    "autoMapFields rec env e src (autoMapMeta env (destination e)) d2 s2 = None"
    by (auto simp: compiledFn_def Let_def split: prod.splits sum.splits option.splits)
  with autoMapFields_returns [OF assms] show False by blast
qed

lemma map_sync_returns:
  assumes "\<forall>c k. mapNestedMeta env c k = None"
  shows "map_sync (Suc n) env sourceObj destinationClass opts s \<noteq> None"
proof
  assume "map_sync (Suc n) env sourceObj destinationClass opts s = None"
  then obtain ce pre s2 where
    "compiledFn (\<lambda>v t. map_sync n env v t None) env ce pre s2 = None"
    by (auto simp: mapBody_def mapTry_def catchWrap_def storeResult_def
        split: sum.splits option.splits prod.splits if_splits)
  with compiledFn_returns [OF assms] show False by blast
qed

lemma mapAsync_returns:
  assumes "\<forall>c k. mapNestedMeta env c k = None"
  shows "mapAsync (Suc n) env sourceObj destinationClass opts s \<noteq> None"
proof
  assume "mapAsync (Suc n) env sourceObj destinationClass opts s = None"
  then obtain ce pre s2 where
    "compiledFn (\<lambda>v t. mapAsync n env v t None) env ce pre s2 = None"
    by (auto simp: mapAsyncBody_def mapAsyncRun_def asyncFn_def storeResult_def
        split: sum.splits option.splits prod.splits if_splits)
  with compiledFn_returns [OF assms] show False by blast
qed

section \<open>What map throws\<close>

text \<open>
  Whatever \<open>map\<close> throws for a source that has a constructor is a mapping error
  naming the source's class and the destination class: the one for a missing entry, or
  the wrapping of what was thrown inside \<open>try\<close>.
\<close>

lemma map_sync_throws_mapping_errors:
  assumes "map_sync n env sourceObj destinationClass opts s = Some (Inl er, s')"
    and "classOf sourceObj = Inr c"
  shows "er = MappingError (cname c) (cname destinationClass) ''Mapping not found'' None
       \<or> (\<exists>cause. er = MappingError (cname c) (cname destinationClass) ''Mapping failed''
                          (Some cause))"
proof -
  from assms(1) obtain k where "n = Suc k" by (cases n) auto
  with assms show ?thesis
    by (auto simp: mapBody_def catchWrap_def createMappingError_def
        split: option.splits sum.splits prod.splits)
qed

section \<open>The auto-map record of a decorated class\<close>

text \<open>
  None of the decorators of the repository files anything under
  \<open>AUTO_MAP_METADATA_KEY\<close> with a class itself: \<open>AutoMap\<close> files its record with the
  prototype, under the property key.
\<close>

lemma getMetadata_defineMetadata:
  "getMetadata key t p (defineMetadata key' v t' p' st)
     = (if (key, t, p) = (key', t', p') then Some v else getMetadata key t p st)"
  by (simp add: getMetadata_def defineMetadata_def map_of_setProp)

lemma decorated_no_class_record:
  assumes "decorated st"
  shows "getMetadata AutoMapKey (Constructor c) None st = None"
  using assms
proof (induction rule: decorated.induct)
  case decorated_none
  show ?case by (simp add: getMetadata_def noClasses_def)
next
  case (decorated_Validate st validator errorMessage c' k)
  then show ?case by (simp add: Validate_def Let_def getMetadata_def)
next
  case (decorated_MapFrom st a c' k st')
  then show ?case
    by (auto simp: MapFrom_def getMetadata_defineMetadata split: sum.splits list.splits)
next
  case (decorated_MapTo st a c' k st')
  then show ?case
    by (auto simp: MapTo_def getMetadata_defineMetadata split: sum.splits list.splits)
qed (simp_all add: AutoMap_def MapProperty_def MapNested_def Transform_def NestAutoMap_def
      NestAutoMapClass_def UseMapper_def Mappable_def MapProfile_def Let_def
      getMetadata_defineMetadata)

text \<open>
  So the compiled function for a decorated destination class has no field to resolve:
  it returns what the default copy and the field functions made.
\<close>

lemma decorated_nothing_to_resolve:
  assumes "decorated st"
  shows "autoMapMeta (envOf ctor st) c = []"
  by (simp add: envOf_def decorated_no_class_record [OF assms])

lemma decorated_compiledFn:
  assumes "decorated st"
  shows "compiledFn rec (envOf ctor st) e src s =
     (case copyProperties (envOf ctor st) (destination e) (options e) src (enumKeys src)
             (ctor (destination e)) (s\<lparr> nextOid := Suc (nextOid s) \<rparr>) of
        (Inl er, s1) \<Rightarrow> Some (Inl er, s1)
      | (Inr dest1, s1) \<Rightarrow>
          (case applyConfigOpt (envOf ctor st) e src dest1 s1 of
             (Inl er, s2) \<Rightarrow> Some (Inl er, s2)
           | (Inr dest2, s2) \<Rightarrow> Some (Inr (Obj (nextOid s) (destination e) dest2), s2)))"
proof -
  have "construct (envOf ctor st) = ctor" by (simp add: envOf_def)
  then show ?thesis
    by (simp add: compiledFn_def Let_def decorated_nothing_to_resolve [OF assms]
        split: prod.splits sum.splits)
qed
section \<open>What a mapping call files in the instance cache\<close>








lemma kept_refl [simp]: "kept j s s"
  by (simp add: kept_def)





lemma hooksAvoid_nextOid [simp]: "hooksAvoid j (s\<lparr> nextOid := n \<rparr>) = hooksAvoid j s"
  by (simp add: hooksAvoid_def entriesOf_def)
















section \<open>A mapping call without hooks and cache\<close>


section \<open>The entries of a forward map and its reverse\<close>



lemma createMap_keeps [simp]:
  "globalOptions (createMap A B cfg opts m0) = globalOptions m0"
  "cacheConfig (createMap A B cfg opts m0) = cacheConfig m0"
  by (simp_all add: createMap_def Let_def)

text \<open>
  The options of the reverse entry are the forward entry's options merged once more
  over the global ones, which changes none of the settings the mapping reads.
\<close>

lemma orElse_twice [simp]: "orElse (orElse u g) g = orElse u g" "orElse g g = g"
  by (simp_all add: orElse_def split: option.splits)






section \<open>Explicit field functions take precedence\<close>



section \<open>Errors of map and mapAsync\<close>

text \<open>
  C2. With a strict entry whose field function throws, \<open>map\<close> throws a mapping error
  that names both types and holds the cause, while \<open>mapAsync\<close> rejects with the
  field function's own error, unwrapped.
\<close>

theorem mapAsync_leaks_unwrapped_error:
  "map_option fst (map_sync 1 plainEnv john TargetC None strictMapper)
     = Some (Inl (MappingError ''Source'' ''Target'' ''Mapping failed'' (Some (Raised ''boom''))))
   \<and> map_option fst (mapAsync 1 plainEnv john TargetC None strictMapper)
     = Some (Inl (Raised ''boom''))"
  by code_simp

section \<open>The instance cache\<close>



section \<open>Decorator-driven fields of decorated classes\<close>

text \<open>
  C4. The claim has every destination field listed in the auto-map metadata resolved:
  by nested mapping, by its source path, or from the same-named source field. The
  compiled function takes the fields to resolve from the keys of a record filed under
  \<open>AUTO_MAP_METADATA_KEY\<close> with the class itself, whereas \<open>AutoMap\<close> files its record
  with the prototype, under the property key, and nothing else writes under that key.
  For decorated classes the list of fields to resolve is therefore empty and no field
  is resolved, whatever its annotations.

  \<open>PersonDto\<close> has its field \<open>home\<close> marked by \<open>AutoMap\<close> and by \<open>MapNested\<close> with
  the type \<open>AddressDto\<close>; the person's \<open>home\<close> is an address in Oslo. The metadata of
  both decorators is there, on the prototype; the list of fields to resolve is empty;
  \<open>map\<close> returns a \<open>PersonDto\<close> without \<open>home\<close>, where the claim has an
  \<open>AddressDto\<close>. When the constructor defines the field, the default copy puts the
  source's own \<open>Address\<close> object there, unmapped. The target of the README's first
  example, with \<open>name\<close> and \<open>age\<close> marked by \<open>AutoMap\<close>, comes back empty, where the
  README shows both fields copied. The \<open>AutoMap\<close> of \<open>nestjs/decorators.ts\<close> files
  a record with the class, but under another symbol, with the same outcome.
\<close>

theorem decorated_fields_are_not_resolved:
  "List.member (map fst (metadata dtoClasses)) (AutoMapKey, Prototype PersonDto, Some ''home'')
   \<and> mapNestedMeta dtoEnv PersonDto ''home'' = Some AddressDto
   \<and> getProp person ''home'' = Obj 201 AddressC [(''city'', Str ''Oslo'')]
   \<and> autoMapMeta dtoEnv PersonDto = []
   \<and> map_option fst (map_sync 2 dtoEnv person PersonDto None nestedMapper)
       = Some (Inr (Obj 0 PersonDto []))
   \<and> map_option fst (map_sync 2 dtoEnvDefined person PersonDto None nestedMapper)
       = Some (Inr (Obj 0 PersonDto [(''home'', Obj 201 AddressC [(''city'', Str ''Oslo'')])]))
   \<and> List.member (map fst (metadata readmeClasses)) (AutoMapKey, Prototype TargetC, Some ''name'')
   \<and> autoMapMeta readmeEnv TargetC = []
   \<and> map_option fst (map_sync 1 readmeEnv john TargetC None readmeMapper)
       = Some (Inr (Obj 0 TargetC []))
   \<and> List.member (map fst (metadata nestClasses)) (NestAutoMapKey, Constructor PersonDto, None)
   \<and> autoMapMeta nestEnv PersonDto = []
   \<and> map_option fst (map_sync 2 nestEnv person PersonDto None nestedMapper)
       = Some (Inr (Obj 0 PersonDto []))"
  by code_simp
section \<open>A field function that throws\<close>



section \<open>Suppressed source fields\<close>




section \<open>Reverse maps\<close>



section \<open>Registry lookup\<close>

text \<open>
  C8. Two different classes that are both named \<open>User\<close> are registered with the same
  destination. Looking up the first finds the entry of the second, although the scan of
  the registry that compares the classes themselves would find the first's own entry,
  and an instance of the first is mapped by the second's field function.
\<close>

theorem findEntry_confuses_classes_of_one_name:
  "UserA \<noteq> UserB
   \<and> map_option source (findEntry twoUsersMapper UserA TargetC) = Some UserB
   \<and> map_option source
         (find (\<lambda>r. source r = UserA \<and> destination r = TargetC) (registry twoUsersMapper))
       = Some UserA
   \<and> map_option fst (map_sync 1 plainEnv (Obj 100 UserA []) TargetC None twoUsersMapper)
     = Some (Inr (Obj 0 TargetC [(''name'', Str ''from B''), (''age'', Undefined)]))"
  by code_simp

section \<open>The naming converter is partial\<close>

text \<open>
  C9. The claim is that the converter returns a string for every input, empty segments
  included. The code does not: a doubled separator, the empty string, or a leading
  capital read as camelCase gives an empty word, and capitalising an empty word throws.
\<close>

theorem convertNamingConvention_throws_on_empty_word:
  "convertNamingConvention ''a__b'' SnakeCase CamelCase = Inl TypeError
   \<and> convertNamingConvention [] SnakeCase PascalCase = Inl TypeError
   \<and> convertNamingConvention ''-a'' KebabCase PascalCase = Inl TypeError
   \<and> convertNamingConvention ''UserName'' CamelCase PascalCase = Inl TypeError"
  by code_simp

section \<open>The third argument\<close>

text \<open>
  C10. The transform options passed to \<open>map\<close> or \<open>mapAsync\<close> change neither the
  outcome nor the state left behind: any two values of the argument, absent included,
  give the same.
\<close>

theorem transform_options_have_no_effect:
  "map_sync n env sourceObj destinationClass o1 s = map_sync n env sourceObj destinationClass o2 s
   \<and> mapAsync n env sourceObj destinationClass o1 s
     = mapAsync n env sourceObj destinationClass o2 s"
  by (cases n) (simp_all add: mapBody_def mapAsyncBody_def)

theorem transform_options_have_no_effect_witness:
  "map_option fst (map_sync 1 plainEnv john TargetC
       (Some \<lparr> t_ignore = Some [''name''], t_include = None, t_convertNaming = None \<rparr>)
       renameMapper)
     = Some (Inr (Obj 0 TargetC [(''name'', Str ''X''), (''age'', Num 30)]))"
proof -
  have "map_option fst (map_sync 1 plainEnv john TargetC None renameMapper)
          = Some (Inr (Obj 0 TargetC [(''name'', Str ''X''), (''age'', Num 30)]))"
    by code_simp
  then show ?thesis
    using transform_options_have_no_effect
      [of 1 plainEnv john TargetC
          "Some \<lparr> t_ignore = Some [''name''], t_include = None, t_convertNaming = None \<rparr>"
          renameMapper None]
    by simp
qed

end
